theory Spec2Isabelle
  imports Complex_Main "HOL-Library.AList"
begin

section \<open>Basic types: errors, strings, paths\<close>

text \<open>
  A Go \<^verbatim>\<open>error\<close> is modelled by its message; \<^verbatim>\<open>nil\<close> is \<open>None\<close> of
  \<open>error option\<close>, and a function returning \<^verbatim>\<open>(T, error)\<close> returns \<open>error + T\<close>.
  \<^verbatim>\<open>fmt.Errorf("... %s: %s", path, err)\<close> is string concatenation.
\<close>

type_synonym error = string

text \<open>\<^verbatim>\<open>strings.HasPrefix\<close> and \<^verbatim>\<open>strings.TrimPrefix\<close>.\<close>

definition HasPrefix :: "string \<Rightarrow> string \<Rightarrow> bool" where
  "HasPrefix s p = (take (length p) s = p)"

definition TrimPrefix :: "string \<Rightarrow> string \<Rightarrow> string" where
  "TrimPrefix s p = (if HasPrefix s p then drop (length p) s else s)"

text \<open>The file component of \<^verbatim>\<open>filepath.Split(path)\<close>: everything after the last slash.\<close>

definition Split_file :: "string \<Rightarrow> string" where
  "Split_file path = rev (takeWhile (\<lambda>c. c \<noteq> CHR ''/'') (rev path))"

section \<open>Durations: time.ParseDuration and Duration.Seconds\<close>

text \<open>
  \<^verbatim>\<open>ConvertAuthConfig\<close> calls \<^verbatim>\<open>time.ParseDuration\<close> and \<^verbatim>\<open>Duration.Seconds\<close> of the Go
  standard library. They are modelled here after the library's source (package time,
  format.go and time.go). Unsigned 64-bit values are \<open>nat\<close>; every step but one is guarded
  against overflow by the library itself, and the one that can wrap (\<^verbatim>\<open>d += v\<close>) is written
  with \<open>mod 2 ^ 64\<close>. A \<^verbatim>\<open>Duration\<close> (int64 nanoseconds) is an \<open>int\<close>.
\<close>

definition isDigit :: "char \<Rightarrow> bool" where
  "isDigit c = (48 \<le> (of_char c :: nat) \<and> (of_char c :: nat) \<le> 57)"

subsection \<open>float64 arithmetic\<close>

text \<open>
  A finite float64 is the rational it denotes. \<open>f64 x\<close> rounds a rational to the nearest
  float64 (53-bit significand, ties to even); an IEEE operation is the exact operation
  followed by \<open>f64\<close>. Overflow and subnormals are outside the range of the values the two
  library functions compute (magnitudes between \<^verbatim>\<open>1e-19\<close> and \<^verbatim>\<open>1e19\<close>). \<open>bits n\<close> is
  the length of \<open>n\<close> in binary, \<open>ilog2 a\<close> the integer part of the binary logarithm of a
  positive rational, and \<open>trunc\<close> the conversion of a float to an integer (towards zero).
\<close>

fun bits :: "nat \<Rightarrow> nat" where
  "bits n = (if n = 0 then 0 else Suc (bits (n div 2)))"

declare bits.simps [simp del]

definition round_half_even :: "rat \<Rightarrow> int" where
  "round_half_even r =
     (let f = \<lfloor>r\<rfloor>; d = r - of_int f in
      if d < 1 / 2 then f
      else if d > 1 / 2 then f + 1
      else if even f then f else f + 1)"

definition ilog2 :: "rat \<Rightarrow> int" where
  "ilog2 a =
     (let (p, q) = quotient_of a;
          d = int (bits (nat p)) - int (bits (nat q)) in
      if (if d \<ge> 0 then a \<ge> 2 ^ nat d else a * 2 ^ nat (- d) \<ge> 1) then d else d - 1)"

definition scale2 :: "rat \<Rightarrow> int \<Rightarrow> rat" where
  "scale2 a e = (if e \<ge> 0 then a * 2 ^ nat e else a / 2 ^ nat (- e))"

definition f64 :: "rat \<Rightarrow> rat" where
  "f64 x =
     (if x = 0 then 0
      else
        (let a = \<bar>x\<bar>; e = ilog2 a - 52;
             m = round_half_even (scale2 a (- e)) in
         sgn x * scale2 (of_int m) e))"

definition trunc :: "rat \<Rightarrow> int" where
  "trunc x = (if x \<ge> 0 then \<lfloor>x\<rfloor> else \<lceil>x\<rceil>)"

subsection \<open>leadingInt and leadingFraction\<close>

text \<open>
  \<^verbatim>\<open>leadingInt\<close> consumes the leading digits; \<open>None\<close> is \<^verbatim>\<open>errLeadingInt\<close> (overflow).
  \<^verbatim>\<open>leadingFraction\<close> consumes the digits after the point and never fails: once the value
  would overflow, further digits are skipped.
\<close>

fun leadingInt_loop :: "nat \<Rightarrow> string \<Rightarrow> (nat \<times> string) option" where
  "leadingInt_loop x [] = Some (x, [])"
| "leadingInt_loop x (c # s) =
     (if \<not> isDigit c then Some (x, c # s)
      else if x > 2 ^ 63 div 10 then None
      else
        (let x' = x * 10 + of_char c - 48 in
         if x' > 2 ^ 63 then None else leadingInt_loop x' s))"

definition leadingInt :: "string \<Rightarrow> (nat \<times> string) option" where
  "leadingInt s = leadingInt_loop 0 s"

fun leadingFraction_loop :: "nat \<Rightarrow> rat \<Rightarrow> bool \<Rightarrow> string \<Rightarrow> nat \<times> rat \<times> string" where
  "leadingFraction_loop x scale overflow [] = (x, scale, [])"
| "leadingFraction_loop x scale overflow (c # s) =
     (if \<not> isDigit c then (x, scale, c # s)
      else if overflow then leadingFraction_loop x scale overflow s
      else if x > (2 ^ 63 - 1) div 10 then leadingFraction_loop x scale True s
      else
        (let y = x * 10 + of_char c - 48 in
         if y > 2 ^ 63 then leadingFraction_loop x scale True s
         else leadingFraction_loop y (f64 (scale * 10)) False s))"

definition leadingFraction :: "string \<Rightarrow> nat \<times> rat \<times> string" where
  "leadingFraction s = leadingFraction_loop 0 1 False s"

subsection \<open>ParseDuration\<close>

text \<open>
  \<^verbatim>\<open>unitMap\<close>; the two spellings of the micro sign are given by their UTF-8 bytes. The
  library's \<^verbatim>\<open>quote\<close> is modelled without its escaping of non-printing bytes: it only
  shapes the text of an error message.
\<close>

definition unitMap :: "string \<Rightarrow> nat option" where
  "unitMap u =
     (if u = ''ns'' then Some 1
      else if u = ''us'' then Some 1000
      else if u = [CHR 0xC2, CHR 0xB5, CHR ''s''] then Some 1000
      else if u = [CHR 0xCE, CHR 0xBC, CHR ''s''] then Some 1000
      else if u = ''ms'' then Some 1000000
      else if u = ''s'' then Some 1000000000
      else if u = ''m'' then Some 60000000000
      else if u = ''h'' then Some 3600000000000
      else None)"

definition quote :: "string \<Rightarrow> string" where
  "quote s = [CHR 0x22] @ s @ [CHR 0x22]"

definition invalid_duration :: "string \<Rightarrow> error" where
  "invalid_duration orig = ''time: invalid duration '' @ quote orig"

definition unit_char :: "char \<Rightarrow> bool" where
  "unit_char c = (\<not> (c = CHR ''.'' \<or> isDigit c))"

text \<open>
  One round of the loop of \<^verbatim>\<open>ParseDuration\<close>, for a non-empty \<open>s\<close>: a number
  \<^verbatim>\<open>[0-9]*(\.[0-9]*)?\<close> and a unit. It returns the value of the term in nanoseconds and
  the rest of the string.
\<close>

definition ParseDuration_term :: "string \<Rightarrow> string \<Rightarrow> error + (nat \<times> string)" where
  "ParseDuration_term orig s =
     (if \<not> (hd s = CHR ''.'' \<or> isDigit (hd s)) then Inl (invalid_duration orig)
      else
        (case leadingInt s of
           None \<Rightarrow> Inl (invalid_duration orig)
         | Some (v, s1) \<Rightarrow>
             (let pre = (length s \<noteq> length s1);
                  (f, scale, post, s2) =
                    (if s1 \<noteq> [] \<and> hd s1 = CHR ''.'' then
                       (case leadingFraction (tl s1) of
                          (f, scale, s2) \<Rightarrow> (f, scale, length (tl s1) \<noteq> length s2, s2))
                     else (0, 1, False, s1)) in
              if \<not> pre \<and> \<not> post then Inl (invalid_duration orig)
              else
                (let u = takeWhile unit_char s2; s3 = dropWhile unit_char s2 in
                 if u = [] then Inl (''time: missing unit in duration '' @ quote orig)
                 else
                   (case unitMap u of
                      None \<Rightarrow>
                        Inl (''time: unknown unit '' @ quote u @ '' in duration '' @ quote orig)
                    | Some unit \<Rightarrow>
                        if v > 2 ^ 63 div unit then Inl (invalid_duration orig)
                        else
                          (let v1 = v * unit;
                               v2 = (if f > 0 then
                                       v1 + nat (trunc (f64 (f64 (of_nat f) *
                                                  f64 (f64 (of_nat unit) / scale))))
                                     else v1) in
                           if f > 0 \<and> v2 > 2 ^ 63 then Inl (invalid_duration orig)
                           else Inr (v2, s3)))))))"

text \<open>Each round consumes at least one character, so the loop ends.\<close>

lemma leadingInt_loop_length:
  "leadingInt_loop x s = Some (v, r) \<Longrightarrow> length r \<le> length s"
  by (induction x s rule: leadingInt_loop.induct) (auto simp: Let_def split: if_splits)

lemma leadingFraction_loop_length:
  "leadingFraction_loop x sc ov s = (f, sc', r) \<Longrightarrow> length r \<le> length s"
  by (induction x sc ov s rule: leadingFraction_loop.induct) (auto simp: Let_def split: if_splits)

lemma ParseDuration_term_shorter:
  assumes "ParseDuration_term orig s = Inr (v, r)" and "s \<noteq> []"
  shows "length r < length s"
proof -
  from assms obtain v0 s1 where li: "leadingInt s = Some (v0, s1)"
    by (auto simp: ParseDuration_term_def split: if_splits option.splits)
  then have l1: "length s1 \<le> length s"
    by (simp add: leadingInt_def leadingInt_loop_length)
  define s2 where "s2 = (if s1 \<noteq> [] \<and> hd s1 = CHR ''.'' then snd (snd (leadingFraction (tl s1))) else s1)"
  have l2: "length s2 \<le> length s1"
  proof (cases "s1 \<noteq> [] \<and> hd s1 = CHR ''.''")
    case True
    obtain f sc r' where lf: "leadingFraction (tl s1) = (f, sc, r')"
      by (cases "leadingFraction (tl s1)") auto
    then have "length r' \<le> length (tl s1)"
      unfolding leadingFraction_def by (rule leadingFraction_loop_length)
    with True lf show ?thesis by (simp add: s2_def)
  next
    case False
    then show ?thesis by (auto simp: s2_def)
  qed
  from assms li have r: "r = dropWhile unit_char s2" and u: "takeWhile unit_char s2 \<noteq> []"
    by (auto simp: ParseDuration_term_def s2_def Let_def split: if_splits option.splits prod.splits)
  from u have "length (dropWhile unit_char s2) < length s2"
    by (cases s2) (auto simp: le_imp_less_Suc length_dropWhile_le split: if_splits)
  with r l1 l2 show ?thesis by simp
qed

function ParseDuration_loop :: "string \<Rightarrow> string \<Rightarrow> nat \<Rightarrow> error + nat" where
  "ParseDuration_loop orig s d =
     (if s = [] then Inr d
      else
        (case ParseDuration_term orig s of
           Inl e \<Rightarrow> Inl e
         | Inr (v, s') \<Rightarrow>
             (let d' = (d + v) mod 2 ^ 64 in
              if d' > 2 ^ 63 then Inl (invalid_duration orig)
              else ParseDuration_loop orig s' d')))"
  by pat_completeness auto
termination
  by (relation "measure (\<lambda>(orig, s, d). length s)") (auto dest: ParseDuration_term_shorter)

declare ParseDuration_loop.simps [simp del]

definition ParseDuration :: "string \<Rightarrow> error + int" where
  "ParseDuration orig =
     (let (neg, s) =
            (case orig of
               [] \<Rightarrow> (False, orig)
             | c # r \<Rightarrow> if c = CHR ''-'' \<or> c = CHR ''+'' then (c = CHR ''-'', r) else (False, orig)) in
      if s = ''0'' then Inr 0
      else if s = [] then Inl (invalid_duration orig)
      else
        (case ParseDuration_loop orig s 0 of
           Inl e \<Rightarrow> Inl e
         | Inr d \<Rightarrow>
             if neg then Inr (- int d)
             else if d > 2 ^ 63 - 1 then Inl (invalid_duration orig)
             else Inr (int d)))"

text \<open>
  \<^verbatim>\<open>Duration.Seconds\<close>: \<^verbatim>\<open>float64(d / Second) + float64(d % Second) / 1e9\<close>, where
  Go's integer division and remainder truncate towards zero.
\<close>

definition tdiv :: "int \<Rightarrow> int \<Rightarrow> int" where
  "tdiv a b = sgn a * sgn b * (\<bar>a\<bar> div \<bar>b\<bar>)"

definition tmod :: "int \<Rightarrow> int \<Rightarrow> int" where
  "tmod a b = a - b * tdiv a b"

definition Seconds :: "int \<Rightarrow> rat" where
  "Seconds d =
     (let sec = tdiv d 1000000000; nsec = tmod d 1000000000 in
      f64 (f64 (of_int sec) + f64 (f64 (of_int nsec) / 1000000000)))"

section \<open>The vault API types used by the handlers\<close>

text \<open>
  \<^verbatim>\<open>vaultApi.AuthConfigInput\<close> and \<^verbatim>\<open>vaultApi.AuthConfigOutput\<close>, with the seven fields
  \<^verbatim>\<open>ConvertAuthConfig\<close> copies. A Go slice is \<open>string list option\<close>: \<open>None\<close> is the nil
  slice, which \<^verbatim>\<open>reflect.DeepEqual\<close> tells apart from an empty one, so that HOL equality on
  these records is \<^verbatim>\<open>reflect.DeepEqual\<close>.
\<close>

record AuthConfigInput =
  DefaultLeaseTTL_in :: string
  MaxLeaseTTL_in :: string
  PluginName_in :: string
  AuditNonHMACRequestKeys_in :: "string list option"
  AuditNonHMACResponseKeys_in :: "string list option"
  ListingVisibility_in :: string
  PassthroughRequestHeaders_in :: "string list option"

record AuthConfigOutput =
  DefaultLeaseTTL_out :: int
  MaxLeaseTTL_out :: int
  PluginName_out :: string
  AuditNonHMACRequestKeys_out :: "string list option"
  AuditNonHMACResponseKeys_out :: "string list option"
  ListingVisibility_out :: string
  PassthroughRequestHeaders_out :: "string list option"

record EnableAuthOptions =
  opts_Type :: string
  opts_Description :: string
  opts_Config :: AuthConfigInput
  opts_Local :: bool

record AuthMount =
  mount_Type :: string
  mount_Description :: string
  mount_Accessor :: string
  mount_Config :: AuthConfigOutput
  mount_Local :: bool

text \<open>\<^verbatim>\<open>SysPolicy\<close> of sys_policy.go.\<close>

record SysPolicy =
  Name :: string
  Policy :: string

section \<open>The remote client\<close>

text \<open>
  The \<^verbatim>\<open>VaultsmithClient\<close> interface. The handlers only see the interface, so the client is
  a record of operations over an arbitrary state \<open>'c\<close> of the remote service; each operation
  returns its result and the next state. A Go map returned by \<^verbatim>\<open>ListAuth\<close> is an association
  list: the order of the list is the order in which a \<^verbatim>\<open>range\<close> loop meets the entries,
  which Go leaves unspecified, so theorems quantify over every order.
\<close>

record 'c Vault =
  DeletePolicy :: "string \<Rightarrow> 'c \<Rightarrow> error option \<times> 'c"
  DisableAuth :: "string \<Rightarrow> 'c \<Rightarrow> error option \<times> 'c"
  EnableAuth :: "string \<Rightarrow> EnableAuthOptions \<Rightarrow> 'c \<Rightarrow> error option \<times> 'c"
  GetPolicy :: "string \<Rightarrow> 'c \<Rightarrow> (error + string) \<times> 'c"
  ListAuth :: "'c \<Rightarrow> (error + (string \<times> AuthMount) list) \<times> 'c"
  ListPolicies :: "'c \<Rightarrow> (error + string list) \<times> 'c"
  PutPolicy :: "string \<Rightarrow> string \<Rightarrow> 'c \<Rightarrow> error option \<times> 'c"

text \<open>
  What a run does is observed through a trace kept beside the handler's fields: one event
  per call of the client, one per file handed to \<^verbatim>\<open>walkFile\<close> and one per entry into the
  prune operation. The trace is not a field of the Go structs; nothing in the model reads it.
\<close>

datatype event =
    CallEnableAuth string EnableAuthOptions
  | CallDisableAuth string
  | CallPutPolicy string string
  | CallDeletePolicy string
  | CallGetPolicy string
  | CallListAuth
  | CallListPolicies
  | Visit string
  | Prune

fun mutating :: "event \<Rightarrow> bool" where
  "mutating (CallEnableAuth p opts) = True"
| "mutating (CallDisableAuth p) = True"
| "mutating (CallPutPolicy n d) = True"
| "mutating (CallDeletePolicy n) = True"
| "mutating e = False"

section \<open>The file tree and filepath.Walk\<close>

text \<open>
  What \<^verbatim>\<open>filepath.Walk\<close> finds at a path: a regular file, a directory with its entries in
  the order \<^verbatim>\<open>Walk\<close> visits them (lexical), a directory whose listing fails, or a path
  whose \<^verbatim>\<open>Lstat\<close> fails (a path that does not exist).
\<close>

datatype fsnode =
    File
  | Dir "(string \<times> fsnode) list"
  | DirErr error
  | StatErr error

text \<open>
  The calls \<^verbatim>\<open>Walk\<close> makes to its \<^verbatim>\<open>WalkFunc\<close>, in order, as triples of the arguments
  \<^verbatim>\<open>(path, info, err)\<close>: \<open>info\<close> is \<open>None\<close> for a nil \<^verbatim>\<open>os.FileInfo\<close> and \<open>Some d\<close>
  for one whose \<^verbatim>\<open>IsDir()\<close> is \<open>d\<close>. A file gets one call; a readable directory one call and
  then its entries' calls; an unreadable directory one call with the listing's error; a
  failed \<^verbatim>\<open>Lstat\<close> one call with a nil info and the error.
\<close>

type_synonym walk_call = "string \<times> bool option \<times> error option"

fun walk_calls :: "string \<Rightarrow> fsnode \<Rightarrow> walk_call list" where
  "walk_calls path File = [(path, Some False, None)]"
| "walk_calls path (Dir entries) =
     (path, Some True, None) #
     concat (map (\<lambda>(name, t). walk_calls (path @ ''/'' @ name) t) entries)"
| "walk_calls path (DirErr e) = [(path, Some True, Some e)]"
| "walk_calls path (StatErr e) = [(path, None, Some e)]"

text \<open>
  \<^verbatim>\<open>Walk\<close> stops at the first call that returns an error and returns it. (None of the
  walk functions of this repository returns \<^verbatim>\<open>filepath.SkipDir\<close>.)
\<close>

fun walk_run ::
  "(string \<Rightarrow> bool option \<Rightarrow> error option \<Rightarrow> 's \<Rightarrow> error option \<times> 's) \<Rightarrow>
   walk_call list \<Rightarrow> 's \<Rightarrow> error option \<times> 's" where
  "walk_run fn [] s = (None, s)"
| "walk_run fn ((p, f, e) # rest) s =
     (case fn p f e s of
        (Some err, s') \<Rightarrow> (Some err, s')
      | (None, s') \<Rightarrow> walk_run fn rest s')"

definition filepath_Walk ::
  "string \<Rightarrow> fsnode \<Rightarrow> (string \<Rightarrow> bool option \<Rightarrow> error option \<Rightarrow> 's \<Rightarrow> error option \<times> 's) \<Rightarrow>
   's \<Rightarrow> error option \<times> 's" where
  "filepath_Walk rootPath t fn s = walk_run fn (walk_calls rootPath t) s"

text \<open>
  What the handlers take from outside this repository's sources: the file system under a
  path, \<^verbatim>\<open>BaseHandler.readFile\<close>, \<^verbatim>\<open>apiPath\<close> and \<^verbatim>\<open>json.Unmarshal\<close> into the two
  structs. They are parameters of the model.
\<close>

record env =
  tree_at :: "string \<Rightarrow> fsnode"
  readFile :: "string \<Rightarrow> error + string"
  apiPath :: "string \<Rightarrow> string \<Rightarrow> error + string"
  unmarshal_SysPolicy :: "string \<Rightarrow> error + SysPolicy"
  unmarshal_EnableAuthOptions :: "string \<Rightarrow> error + EnableAuthOptions"

section \<open>SysPolicyHandler (sys\_policy.go)\<close>

record 'c BaseHandler =
  client :: 'c
  DocumentPath :: string
  trace :: "event list"

record 'c SysPolicyHandler = "'c BaseHandler" +
  livePolicyList :: "string list"
  configuredPolicyList :: "string list"

text \<open>\<^verbatim>\<open>fixedPolicies\<close>: a lookup in the Go map gives false for every other name.\<close>

definition fixedPolicies :: "string \<Rightarrow> bool" where
  "fixedPolicies n = (n = ''root'' \<or> n = ''default'')"

definition NewSysPolicyHandler ::
  "'c Vault \<Rightarrow> 'c \<Rightarrow> error + 'c SysPolicyHandler" where
  "NewSysPolicyHandler V c =
     (case ListPolicies V c of
        (Inl err, c') \<Rightarrow> Inl (''error listing policies: '' @ err)
      | (Inr live, c') \<Rightarrow>
          Inr \<lparr>client = c', DocumentPath = '''', trace = [CallListPolicies],
               livePolicyList = live, configuredPolicyList = []\<rparr>)"

definition policyExists :: "'c SysPolicyHandler \<Rightarrow> SysPolicy \<Rightarrow> bool" where
  "policyExists sh policy = (Name policy \<in> set (livePolicyList sh))"

definition isPolicyApplied ::
  "'c Vault \<Rightarrow> SysPolicy \<Rightarrow> 'c SysPolicyHandler \<Rightarrow> (bool \<times> error option) \<times> 'c SysPolicyHandler" where
  "isPolicyApplied V policy sh =
     (if \<not> policyExists sh policy then ((False, None), sh)
      else
        (case GetPolicy V (Name policy) (client sh) of
           (r, c') \<Rightarrow>
             (let sh' = sh\<lparr>client := c', trace := trace sh @ [CallGetPolicy (Name policy)]\<rparr> in
              case r of
                Inl err \<Rightarrow> ((False, None), sh')
              | Inr remotePolicy \<Rightarrow>
                  (if Policy policy = remotePolicy then ((True, None), sh')
                   else ((False, None), sh')))))"

definition EnsurePolicy ::
  "'c Vault \<Rightarrow> SysPolicy \<Rightarrow> 'c SysPolicyHandler \<Rightarrow> error option \<times> 'c SysPolicyHandler" where
  "EnsurePolicy V policy sh =
     (let sh1 = sh\<lparr>configuredPolicyList := configuredPolicyList sh @ [Name policy]\<rparr> in
      case isPolicyApplied V policy sh1 of
        ((applied, Some err), sh2) \<Rightarrow> (Some err, sh2)
      | ((applied, None), sh2) \<Rightarrow>
          (if applied then (None, sh2)
           else
             (case PutPolicy V (Name policy) (Policy policy) (client sh2) of
                (r, c') \<Rightarrow>
                  (r, sh2\<lparr>client := c',
                          trace := trace sh2 @ [CallPutPolicy (Name policy) (Policy policy)]\<rparr>))))"

text \<open>
  The loop of \<^verbatim>\<open>RemoveUndeclaredPolicies\<close> over \<^verbatim>\<open>livePolicyList\<close>. The inner loop that
  sets \<^verbatim>\<open>found\<close> is membership in \<^verbatim>\<open>configuredPolicyList\<close>. The value \<^verbatim>\<open>DeletePolicy\<close>
  returns is dropped, as in the source.
\<close>

fun RemoveUndeclaredPolicies_loop ::
  "'c Vault \<Rightarrow> string list \<Rightarrow> string list \<Rightarrow> 'c SysPolicyHandler \<Rightarrow>
   string list \<times> 'c SysPolicyHandler" where
  "RemoveUndeclaredPolicies_loop V [] deleted sh = (deleted, sh)"
| "RemoveUndeclaredPolicies_loop V (liveName # rest) deleted sh =
     (if fixedPolicies liveName then RemoveUndeclaredPolicies_loop V rest deleted sh
      else
        (let found = (liveName \<in> set (configuredPolicyList sh)) in
         if \<not> found then
           (case DeletePolicy V liveName (client sh) of
              (r, c') \<Rightarrow>
                RemoveUndeclaredPolicies_loop V rest (deleted @ [liveName])
                  (sh\<lparr>client := c', trace := trace sh @ [CallDeletePolicy liveName]\<rparr>))
         else RemoveUndeclaredPolicies_loop V rest deleted sh))"

definition RemoveUndeclaredPolicies ::
  "'c Vault \<Rightarrow> 'c SysPolicyHandler \<Rightarrow> (string list \<times> error option) \<times> 'c SysPolicyHandler" where
  "RemoveUndeclaredPolicies V sh =
     (case RemoveUndeclaredPolicies_loop V (livePolicyList sh) []
             (sh\<lparr>trace := trace sh @ [Prune]\<rparr>) of
        (deleted, sh') \<Rightarrow> ((deleted, None), sh'))"

definition SysPolicyHandler_walkFile ::
  "'c Vault \<Rightarrow> env \<Rightarrow> string \<Rightarrow> bool option \<Rightarrow> error option \<Rightarrow> 'c SysPolicyHandler \<Rightarrow>
   error option \<times> 'c SysPolicyHandler" where
  "SysPolicyHandler_walkFile V E path f err sh0 =
     (let sh = sh0\<lparr>trace := trace sh0 @ [Visit path]\<rparr> in
      case f of
        None \<Rightarrow> (None, sh)
      | Some isDir \<Rightarrow>
          (case err of
             Some e \<Rightarrow> (Some (''error reading '' @ path @ '': '' @ e), sh)
           | None \<Rightarrow>
               if isDir then (None, sh)
               else
                 (case readFile E path of
                    Inl e \<Rightarrow> (Some e, sh)
                  | Inr fileContents \<Rightarrow>
                      (let file = Split_file path in
                       case unmarshal_SysPolicy E fileContents of
                         Inl e \<Rightarrow> (Some (''failed to parse json in '' @ path @ '': '' @ e), sh)
                       | Inr policy \<Rightarrow>
                           (case EnsurePolicy V (policy\<lparr>Name := file\<rparr>) sh of
                              (Some e, sh') \<Rightarrow>
                                (Some (''failed to apply policy from '' @ path @ '': '' @ e), sh')
                            | (None, sh') \<Rightarrow> (None, sh'))))))"

definition SysPolicyHandler_PutPoliciesFromDir ::
  "'c Vault \<Rightarrow> env \<Rightarrow> string \<Rightarrow> 'c SysPolicyHandler \<Rightarrow> error option \<times> 'c SysPolicyHandler" where
  "SysPolicyHandler_PutPoliciesFromDir V E path sh =
     (case filepath_Walk path (tree_at E path) (SysPolicyHandler_walkFile V E) sh of
        (Some err, sh') \<Rightarrow> (Some err, sh')
      | (None, sh') \<Rightarrow>
          (case RemoveUndeclaredPolicies V sh' of
             ((deleted, err), sh'') \<Rightarrow> (err, sh'')))"

section \<open>SysAuth (sys\_auth.go)\<close>

text \<open>
  \<^verbatim>\<open>ConvertAuthConfig\<close>. A Go \<^verbatim>\<open>int\<close> holds every value \<^verbatim>\<open>int(dur.Seconds())\<close> can
  take (at most \<^verbatim>\<open>2^63 / 1e9 + 1\<close> in magnitude), so the two TTL fields are \<open>int\<close>.
\<close>

definition ConvertAuthConfig :: "AuthConfigInput \<Rightarrow> error + AuthConfigOutput" where
  "ConvertAuthConfig input =
     (case (if DefaultLeaseTTL_in input \<noteq> [] then
              (case ParseDuration (DefaultLeaseTTL_in input) of
                 Inl err \<Rightarrow>
                   Inl (''could not parse DefaultLeaseTTL value '' @ DefaultLeaseTTL_in input @
                        '' as seconds: '' @ err)
               | Inr dur \<Rightarrow> Inr (trunc (Seconds dur)))
            else Inr 0) of
        Inl e \<Rightarrow> Inl e
      | Inr DefaultLeaseTTL \<Rightarrow>
          (case (if MaxLeaseTTL_in input \<noteq> [] then
                   (case ParseDuration (MaxLeaseTTL_in input) of
                      Inl err \<Rightarrow>
                        Inl (''could not parse MaxLeaseTTL value '' @ MaxLeaseTTL_in input @
                             '' as seconds: '' @ err)
                    | Inr dur \<Rightarrow> Inr (trunc (Seconds dur)))
                 else Inr 0) of
             Inl e \<Rightarrow> Inl e
           | Inr MaxLeaseTTL \<Rightarrow>
               Inr \<lparr>DefaultLeaseTTL_out = DefaultLeaseTTL,
                    MaxLeaseTTL_out = MaxLeaseTTL,
                    PluginName_out = PluginName_in input,
                    AuditNonHMACRequestKeys_out = AuditNonHMACRequestKeys_in input,
                    AuditNonHMACResponseKeys_out = AuditNonHMACResponseKeys_in input,
                    ListingVisibility_out = ListingVisibility_in input,
                    PassthroughRequestHeaders_out = PassthroughRequestHeaders_in input\<rparr>))"

text \<open>
  The handler. \<^verbatim>\<open>liveAuthMap\<close> is the map \<^verbatim>\<open>ListAuth\<close> returned (an association list,
  looked up with \<open>map_of\<close> and ranged over in list order); \<^verbatim>\<open>configuredAuthMap\<close> is only
  written and tested for membership, so it is a map \<open>string \<rightharpoonup> AuthMount\<close>.
\<close>

record 'c SysAuth = "'c BaseHandler" +
  liveAuthMap :: "(string \<times> AuthMount) list"
  configuredAuthMap :: "string \<rightharpoonup> AuthMount"

definition NewSysAuthHandler :: "'c Vault \<Rightarrow> string \<Rightarrow> 'c \<Rightarrow> error + 'c SysAuth" where
  "NewSysAuthHandler V documentPath c =
     (case ListAuth V c of
        (Inl err, c') \<Rightarrow> Inl err
      | (Inr live, c') \<Rightarrow>
          Inr \<lparr>client = c', DocumentPath = documentPath, trace = [CallListAuth],
               liveAuthMap = live, configuredAuthMap = Map.empty\<rparr>)"

definition isConfigApplied :: "AuthConfigInput \<Rightarrow> AuthConfigOutput \<Rightarrow> error option \<times> bool" where
  "isConfigApplied localConfig remoteConfig =
     (case ConvertAuthConfig localConfig of
        Inl err \<Rightarrow> (Some err, False)
      | Inr converted \<Rightarrow> (None, converted = remoteConfig))"

definition ensureAuth ::
  "'c Vault \<Rightarrow> string \<Rightarrow> EnableAuthOptions \<Rightarrow> 'c SysAuth \<Rightarrow> error option \<times> 'c SysAuth" where
  "ensureAuth V path enableOpts sh =
     (case ConvertAuthConfig (opts_Config enableOpts) of
        Inl err \<Rightarrow> (Some err, sh)
      | Inr enableOptsAuthConfigOutput \<Rightarrow>
          (let authMount = \<lparr>mount_Type = opts_Type enableOpts, mount_Description = [],
                             mount_Accessor = [], mount_Config = enableOptsAuthConfigOutput,
                             mount_Local = False\<rparr>;
               sh1 = sh\<lparr>configuredAuthMap := (configuredAuthMap sh)(path \<mapsto> authMount)\<rparr> in
           case (case map_of (liveAuthMap sh1) path of
                   None \<Rightarrow> Inr False
                 | Some liveAuth \<Rightarrow>
                     (case isConfigApplied (opts_Config enableOpts) (mount_Config liveAuth) of
                        (Some err, applied) \<Rightarrow>
                          Inl (''could not determine whether configuration for auth mount '' @
                               opts_Type enableOpts @ '' was applied: '' @ err)
                      | (None, applied) \<Rightarrow> Inr applied)) of
             Inl e \<Rightarrow> (Some e, sh1)
           | Inr True \<Rightarrow> (None, sh1)
           | Inr False \<Rightarrow>
               (case EnableAuth V path enableOpts (client sh1) of
                  (r, c') \<Rightarrow>
                    (let sh2 = sh1\<lparr>client := c',
                                   trace := trace sh1 @ [CallEnableAuth path enableOpts]\<rparr> in
                     case r of
                       Some err \<Rightarrow> (Some (''could not enable auth '' @ path @ '': '' @ err), sh2)
                     | None \<Rightarrow> (None, sh2)))))"

text \<open>The loop of \<^verbatim>\<open>DisableUnconfiguredAuths\<close> over the entries of \<^verbatim>\<open>liveAuthMap\<close>.\<close>

fun DisableUnconfiguredAuths_loop ::
  "'c Vault \<Rightarrow> (string \<times> AuthMount) list \<Rightarrow> 'c SysAuth \<Rightarrow> error option \<times> 'c SysAuth" where
  "DisableUnconfiguredAuths_loop V [] sh = (None, sh)"
| "DisableUnconfiguredAuths_loop V ((path, authMount) # rest) sh =
     (if configuredAuthMap sh path \<noteq> None then DisableUnconfiguredAuths_loop V rest sh
      else if mount_Type authMount = ''token'' then DisableUnconfiguredAuths_loop V rest sh
      else
        (case DisableAuth V path (client sh) of
           (r, c') \<Rightarrow>
             (let sh' = sh\<lparr>client := c', trace := trace sh @ [CallDisableAuth path]\<rparr> in
              case r of
                Some err \<Rightarrow>
                  (Some (''failed to disable authMount at '' @ path @ '': '' @ err), sh')
              | None \<Rightarrow> DisableUnconfiguredAuths_loop V rest sh')))"

definition DisableUnconfiguredAuths :: "'c Vault \<Rightarrow> 'c SysAuth \<Rightarrow> error option \<times> 'c SysAuth" where
  "DisableUnconfiguredAuths V sh =
     DisableUnconfiguredAuths_loop V (liveAuthMap sh) (sh\<lparr>trace := trace sh @ [Prune]\<rparr>)"

definition SysAuth_walkFile ::
  "'c Vault \<Rightarrow> env \<Rightarrow> string \<Rightarrow> bool option \<Rightarrow> error option \<Rightarrow> 'c SysAuth \<Rightarrow>
   error option \<times> 'c SysAuth" where
  "SysAuth_walkFile V E path f err sh0 =
     (let sh = sh0\<lparr>trace := trace sh0 @ [Visit path]\<rparr> in
      case f of
        None \<Rightarrow> (None, sh)
      | Some isDir \<Rightarrow>
          (case err of
             Some e \<Rightarrow> (Some (''error reading '' @ path @ '': '' @ e), sh)
           | None \<Rightarrow>
               if isDir then (None, sh)
               else
                 (case apiPath E (DocumentPath sh) path of
                    Inl e \<Rightarrow> (Some e, sh)
                  | Inr policyPath \<Rightarrow>
                      if \<not> HasPrefix policyPath ''sys/auth'' then
                        (Some (''found file without sys/auth prefix: '' @ policyPath), sh)
                      else
                        (case readFile E path of
                           Inl e \<Rightarrow> (Some e, sh)
                         | Inr fileContents \<Rightarrow>
                             (case unmarshal_EnableAuthOptions E fileContents of
                                Inl e \<Rightarrow>
                                  (Some (''could not parse json from file '' @ path @ '': '' @ e), sh)
                              | Inr enableOpts \<Rightarrow>
                                  (let sysAuthPath = TrimPrefix policyPath ''sys/auth/'' @ ''/'' in
                                   case ensureAuth V sysAuthPath enableOpts sh of
                                     (Some e, sh') \<Rightarrow>
                                       (Some (''error while ensuring auth for path '' @ path @
                                              '': '' @ e), sh')
                                   | (None, sh') \<Rightarrow> (None, sh')))))))"

definition SysAuth_PutPoliciesFromDir ::
  "'c Vault \<Rightarrow> env \<Rightarrow> string \<Rightarrow> 'c SysAuth \<Rightarrow> error option \<times> 'c SysAuth" where
  "SysAuth_PutPoliciesFromDir V E path sh =
     (case filepath_Walk path (tree_at E path) (SysAuth_walkFile V E) sh of
        (Some err, sh') \<Rightarrow> (Some err, sh')
      | (None, sh') \<Rightarrow> DisableUnconfiguredAuths V sh')"

section \<open>ConfigWalker (configWalker.go)\<close>

text \<open>
  A \<^verbatim>\<open>PathHandler\<close> as the walker sees it: its \<^verbatim>\<open>Order()\<close> and its
  \<^verbatim>\<open>PutPoliciesFromDir\<close>, which acts on a state \<open>'w\<close> shared by the handlers and the remote
  service. \<^verbatim>\<open>HandlerMap\<close> is a Go map, here an association list with distinct keys whose
  order is the order in which \<^verbatim>\<open>range\<close> meets the keys (the registration order is not a
  notion of a Go map; every order is possible). \<^verbatim>\<open>Visited\<close> only ever holds
  \<^verbatim>\<open>true\<close>, so it is a set. The list \<open>dispatched\<close> records each call of a handler, as the
  pair of the handler's key and the directory it is given; it is not a field of the Go struct.
\<close>

record 'w PathHandler =
  Order :: int
  PutPoliciesFromDir :: "string \<Rightarrow> 'w \<Rightarrow> error option \<times> 'w"

record 'w ConfigWalker =
  HandlerMap :: "(string \<times> 'w PathHandler) list"
  ConfigDir :: string

record 'w walker_state =
  Visited :: "string set"
  world :: 'w
  dispatched :: "(string \<times> string) list"

text \<open>
  Path functions, on the clean slash-separated paths the walker handles:
  \<^verbatim>\<open>filepath.Join(path, v)\<close> of a clean directory and a clean relative key,
  \<^verbatim>\<open>strings.Split(s, "/")\<close>, \<^verbatim>\<open>strings.Join(a, "/")\<close>, and \<^verbatim>\<open>filepath.Rel\<close> for a target
  that is the base or lies below it, as every path \<^verbatim>\<open>Walk\<close> passes to \<^verbatim>\<open>walkFile\<close> does
  (for any other target the model returns the error branch).
\<close>

definition Join :: "string \<Rightarrow> string \<Rightarrow> string" where
  "Join path v = path @ ''/'' @ v"

fun Split :: "string \<Rightarrow> string list" where
  "Split [] = [[]]"
| "Split (c # s) =
     (if c = CHR ''/'' then [] # Split s
      else (case Split s of w # ws \<Rightarrow> (c # w) # ws | [] \<Rightarrow> [[c]]))"

fun strings_Join :: "string list \<Rightarrow> string" where
  "strings_Join [] = []"
| "strings_Join [w] = w"
| "strings_Join (w # ws) = w @ ''/'' @ strings_Join ws"

definition Rel :: "string \<Rightarrow> string \<Rightarrow> error + string" where
  "Rel basepath targpath =
     (if targpath = basepath then Inr ''.''
      else if HasPrefix targpath (basepath @ ''/'') then Inr (drop (length basepath + 1) targpath)
      else Inl (''Rel: can't make '' @ targpath @ '' relative to '' @ basepath))"

text \<open>
  The comparison \<^verbatim>\<open>sortedPaths\<close> passes to \<^verbatim>\<open>sort.Slice\<close>. The paths compared are keys of
  the map, so the lookups succeed.
\<close>

definition order_less :: "(string \<times> 'w PathHandler) list \<Rightarrow> string \<Rightarrow> string \<Rightarrow> bool" where
  "order_less hm p1 p2 =
     (let h1 = the (map_of hm p1); h2 = the (map_of hm p2) in
      if Order h1 = 0 then False
      else if Order h2 = 0 then True
      else Order h1 < Order h2)"

text \<open>
  \<^verbatim>\<open>sort.Slice\<close> on a slice of at most twelve elements is the library's insertion sort
  (\<^verbatim>\<open>insertionSort_func\<close>): each element in turn is swapped towards the front while it is
  less than its left neighbour. \<open>insert_left\<close> holds the part already sorted in reverse.
\<close>

fun insert_left :: "('a \<Rightarrow> 'a \<Rightarrow> bool) \<Rightarrow> 'a \<Rightarrow> 'a list \<Rightarrow> 'a list" where
  "insert_left lt x [] = [x]"
| "insert_left lt x (y # ys) =
     (if lt x y then y # insert_left lt x ys else x # y # ys)"

definition sort_Slice :: "('a \<Rightarrow> 'a \<Rightarrow> bool) \<Rightarrow> 'a list \<Rightarrow> 'a list" where
  "sort_Slice lt xs = rev (foldl (\<lambda>acc x. insert_left lt x acc) [] xs)"

definition sortedPaths :: "'w ConfigWalker \<Rightarrow> string list" where
  "sortedPaths cw = sort_Slice (order_less (HandlerMap cw)) (map fst (HandlerMap cw))"

text \<open>\<^verbatim>\<open>hasParentHandler\<close>: the loop over \<^verbatim>\<open>i = 0 .. len(pathArr) - 2\<close>.\<close>

fun hasParentHandler_loop ::
  "(string \<times> 'w PathHandler) list \<Rightarrow> string \<Rightarrow> string list \<Rightarrow> nat list \<Rightarrow> bool" where
  "hasParentHandler_loop hm path pathArr [] = False"
| "hasParentHandler_loop hm path pathArr (i # rest) =
     (let s = strings_Join (take (i + 1) pathArr) in
      if s = path then hasParentHandler_loop hm path pathArr rest
      else if map_of hm s \<noteq> None then True
      else hasParentHandler_loop hm path pathArr rest)"

definition hasParentHandler :: "'w ConfigWalker \<Rightarrow> string \<Rightarrow> bool" where
  "hasParentHandler cw path =
     (let pathArr = Split path in
      hasParentHandler_loop (HandlerMap cw) path pathArr [0 ..< length pathArr - 1])"

definition ConfigWalker_walkFile ::
  "'w ConfigWalker \<Rightarrow> string \<Rightarrow> bool option \<Rightarrow> error option \<Rightarrow> 'w walker_state \<Rightarrow>
   error option \<times> 'w walker_state" where
  "ConfigWalker_walkFile cw path f err st =
     (case f of
        None \<Rightarrow> (None, st)
      | Some isDir \<Rightarrow>
          if \<not> isDir then (None, st)
          else if path \<in> Visited st then (None, st)
          else
            (case Rel (ConfigDir cw) path of
               Inl e \<Rightarrow>
                 (Some (''could not determine relative path of '' @ path @ '' to '' @
                        ConfigDir cw @ '': '' @ e), st)
             | Inr relPath \<Rightarrow>
                 if hd (Split relPath) = ''.'' then (None, st)
                 else if hasParentHandler cw relPath then (None, st)
                 else
                   (case map_of (HandlerMap cw) relPath of
                      None \<Rightarrow> (None, st)
                    | Some handler \<Rightarrow>
                        (case PutPoliciesFromDir handler path (world st) of
                           (r, w') \<Rightarrow>
                             (r, st\<lparr>world := w',
                                    dispatched := dispatched st @ [(relPath, path)]\<rparr>)))))"

text \<open>The first loop of \<^verbatim>\<open>walkConfigDir\<close>, over the sorted paths.\<close>

fun walkConfigDir_loop ::
  "'w ConfigWalker \<Rightarrow> string \<Rightarrow> string list \<Rightarrow> 'w walker_state \<Rightarrow> error option \<times> 'w walker_state" where
  "walkConfigDir_loop cw path [] st = (None, st)"
| "walkConfigDir_loop cw path (v # rest) st =
     (let handler = the (map_of (HandlerMap cw) v);
          p = Join path v in
      case PutPoliciesFromDir handler p (world st) of
        (r, w') \<Rightarrow>
          (let st' = st\<lparr>world := w', dispatched := dispatched st @ [(v, p)]\<rparr> in
           case r of
             Some err \<Rightarrow> (Some err, st')
           | None \<Rightarrow> walkConfigDir_loop cw path rest (st'\<lparr>Visited := insert p (Visited st')\<rparr>)))"

definition walkConfigDir ::
  "'w ConfigWalker \<Rightarrow> fsnode \<Rightarrow> string \<Rightarrow> 'w walker_state \<Rightarrow> error option \<times> 'w walker_state" where
  "walkConfigDir cw t path st =
     (case walkConfigDir_loop cw path (sortedPaths cw) st of
        (Some err, st') \<Rightarrow> (Some err, st')
      | (None, st') \<Rightarrow> filepath_Walk path t (ConfigWalker_walkFile cw) st')"

text \<open>\<^verbatim>\<open>Run\<close>, on the tree \<open>t\<close> found at \<^verbatim>\<open>ConfigDir\<close>.\<close>

definition Run ::
  "'w ConfigWalker \<Rightarrow> fsnode \<Rightarrow> 'w walker_state \<Rightarrow> error option \<times> 'w walker_state" where
  "Run cw t st = walkConfigDir cw t (ConfigDir cw) st"

section \<open>A remote service and a file system to run the handlers on\<close>

text \<open>
  Modelled from the spec: the remote target (section 6, "Remote target contract", and the
  "live state" of section 8), whose code is not part of this repository. It is a store of
  auth mounts by path and of policy documents by name: enabling a mount records its type with
  the configuration in the shape the service reports (durations in seconds), putting a policy
  records its text, disabling and deleting remove the entry, and no call fails except
  \<^verbatim>\<open>getPolicy\<close> of a name that is absent and enabling a mount whose durations do not parse.
\<close>

record store =
  auths :: "(string \<times> AuthMount) list"
  policies :: "(string \<times> string) list"

definition store_Vault :: "store Vault" where
  "store_Vault =
     \<lparr>DeletePolicy = (\<lambda>name c. (None, c\<lparr>policies := AList.delete name (policies c)\<rparr>)),
      DisableAuth = (\<lambda>path c. (None, c\<lparr>auths := AList.delete path (auths c)\<rparr>)),
      EnableAuth = (\<lambda>path opts c.
        (case ConvertAuthConfig (opts_Config opts) of
           Inl e \<Rightarrow> (Some e, c)
         | Inr cfg \<Rightarrow>
             (None, c\<lparr>auths := AList.update path
                \<lparr>mount_Type = opts_Type opts, mount_Description = opts_Description opts,
                 mount_Accessor = [], mount_Config = cfg, mount_Local = opts_Local opts\<rparr>
                (auths c)\<rparr>))),
      GetPolicy = (\<lambda>name c.
        (case map_of (policies c) name of
           None \<Rightarrow> (Inl ''not found'', c)
         | Some text \<Rightarrow> (Inr text, c))),
      ListAuth = (\<lambda>c. (Inr (auths c), c)),
      ListPolicies = (\<lambda>c. (Inr (map fst (policies c)), c)),
      PutPolicy = (\<lambda>name text c. (None, c\<lparr>policies := AList.update name text (policies c)\<rparr>))\<rparr>"

text \<open>A remote service that refuses every call.\<close>

definition denying_Vault :: "unit Vault" where
  "denying_Vault =
     \<lparr>DeletePolicy = (\<lambda>name c. (Some ''permission denied'', c)),
      DisableAuth = (\<lambda>path c. (Some ''permission denied'', c)),
      EnableAuth = (\<lambda>path opts c. (Some ''permission denied'', c)),
      GetPolicy = (\<lambda>name c. (Inl ''permission denied'', c)),
      ListAuth = (\<lambda>c. (Inl ''permission denied'', c)),
      ListPolicies = (\<lambda>c. (Inl ''permission denied'', c)),
      PutPolicy = (\<lambda>name text c. (Some ''permission denied'', c))\<rparr>"

text \<open>
  A file system for concrete runs: the tree found at every path asked for, and the contents
  of its files by path. In place of the JSON decoder, the content of a policy file is taken
  as the policy text, and the content of an auth file as the mount type, with an empty
  configuration. \<^verbatim>\<open>apiPath\<close> strips the document path.
\<close>

definition no_config :: AuthConfigInput where
  "no_config =
     \<lparr>DefaultLeaseTTL_in = [], MaxLeaseTTL_in = [], PluginName_in = [],
      AuditNonHMACRequestKeys_in = None, AuditNonHMACResponseKeys_in = None,
      ListingVisibility_in = [], PassthroughRequestHeaders_in = None\<rparr>"

definition files_env :: "fsnode \<Rightarrow> (string \<times> string) list \<Rightarrow> env" where
  "files_env t files =
     \<lparr>tree_at = (\<lambda>p. t),
      readFile = (\<lambda>p. case map_of files p of
                         None \<Rightarrow> Inl (''open '' @ p @ '': no such file or directory'')
                       | Some content \<Rightarrow> Inr content),
      apiPath = (\<lambda>doc p. Inr (TrimPrefix p (doc @ ''/''))),
      unmarshal_SysPolicy = (\<lambda>content. Inr \<lparr>Name = [], Policy = content\<rparr>),
      unmarshal_EnableAuthOptions = (\<lambda>content.
        Inr \<lparr>opts_Type = content, opts_Description = [], opts_Config = no_config,
             opts_Local = False\<rparr>)\<rparr>"

text \<open>The events of a run: what \<open>after\<close> added to the trace of \<open>before\<close>.\<close>

definition new_events :: "event list \<Rightarrow> event list \<Rightarrow> event list" where
  "new_events before after = drop (length before) after"

text \<open>A policy handler whose live list holds one undeclared policy, on the refusing service.\<close>

definition legacy_handler :: "unit SysPolicyHandler" where
  "legacy_handler =
     \<lparr>client = (), DocumentPath = [], trace = [],
      livePolicyList = [''legacy''], configuredPolicyList = []\<rparr>"


fun visited_path :: "event \<Rightarrow> string option" where
  "visited_path (Visit p) = Some p"
| "visited_path e = None"

definition visits :: "event list \<Rightarrow> string list" where
  "visits evs = List.map_filter visited_path evs"

text \<open>An event of the ensure phase: a read or a create-or-update call.\<close>

fun ensuring :: "event \<Rightarrow> bool" where
  "ensuring (CallGetPolicy n) = True"
| "ensuring (CallPutPolicy n b) = True"
| "ensuring (CallEnableAuth p opts) = True"
| "ensuring e = False"

text \<open>
  A live state with a token mount and an LDAP mount, and with the two fixed policies and one
  more; the two handlers as their constructors build them from it; and a policy directory
  with one file.
\<close>

definition no_config_out :: AuthConfigOutput where
  "no_config_out =
     \<lparr>DefaultLeaseTTL_out = 0, MaxLeaseTTL_out = 0, PluginName_out = [],
      AuditNonHMACRequestKeys_out = None, AuditNonHMACResponseKeys_out = None,
      ListingVisibility_out = [], PassthroughRequestHeaders_out = None\<rparr>"

definition mount_of_type :: "string \<Rightarrow> AuthMount" where
  "mount_of_type t =
     \<lparr>mount_Type = t, mount_Description = [], mount_Accessor = [],
      mount_Config = no_config_out, mount_Local = False\<rparr>"

definition live_store :: store where
  "live_store =
     \<lparr>auths = [(''token/'', mount_of_type ''token''), (''ldap/'', mount_of_type ''ldap'')],
      policies = [(''root'', []), (''default'', ''d''), (''legacy'', ''l'')]\<rparr>"

definition live_auth_handler :: "store SysAuth" where
  "live_auth_handler =
     \<lparr>client = live_store, DocumentPath = ''cfg'', trace = [CallListAuth],
      liveAuthMap = auths live_store, configuredAuthMap = Map.empty\<rparr>"

definition live_policy_handler :: "store SysPolicyHandler" where
  "live_policy_handler =
     \<lparr>client = live_store, DocumentPath = [], trace = [CallListPolicies],
      livePolicyList = map fst (policies live_store), configuredPolicyList = []\<rparr>"

definition ops_env :: env where
  "ops_env = files_env (Dir [(''ops'', File)]) [(''cfg/sys/policy/ops'', ''read secret'')]"


text \<open>
  A policy directory and an auth directory that each hold one file whose name starts with
  an underscore.
\<close>

definition underscore_policy_env :: env where
  "underscore_policy_env =
     files_env (Dir [(''_params.json'', File)]) [(''cfg/sys/policy/_params.json'', ''x'')]"

definition underscore_auth_env :: env where
  "underscore_auth_env =
     files_env (Dir [(''_params.json'', File)]) [(''cfg/sys/auth/_params.json'', ''ldap'')]"

text \<open>Options for an LDAP mount whose default lease TTL is not a duration.\<close>

definition bad_ttl_opts :: EnableAuthOptions where
  "bad_ttl_opts =
     \<lparr>opts_Type = ''ldap'', opts_Description = [],
      opts_Config = no_config\<lparr>DefaultLeaseTTL_in := ''soon''\<rparr>, opts_Local = False\<rparr>"

text \<open>Options for an LDAP mount with an empty configuration.\<close>

definition ldap_opts :: EnableAuthOptions where
  "ldap_opts =
     \<lparr>opts_Type = ''ldap'', opts_Description = [], opts_Config = no_config, opts_Local = False\<rparr>"

text \<open>
  A remote service that lists and reads like the store and refuses every mutating call, and
  a live state with two LDAP mounts, with the auth handler its constructor builds on it.
\<close>

definition readonly_Vault :: "store Vault" where
  "readonly_Vault =
     \<lparr>DeletePolicy = (\<lambda>name c. (Some ''permission denied'', c)),
      DisableAuth = (\<lambda>path c. (Some ''permission denied'', c)),
      EnableAuth = (\<lambda>path opts c. (Some ''permission denied'', c)),
      GetPolicy = GetPolicy store_Vault,
      ListAuth = ListAuth store_Vault,
      ListPolicies = ListPolicies store_Vault,
      PutPolicy = (\<lambda>name text c. (Some ''permission denied'', c))\<rparr>"









text \<open>
  Walkers to run: handlers that only record the directory they are given, in a world that
  is the list of those directories; a walker whose map binds \<open>C\<close>, \<open>B\<close> and \<open>A\<close> with the
  priorities 0, 2 and 1, met by \<^verbatim>\<open>range\<close> in that order; and a walker that binds both
  \<open>auth\<close> and \<open>auth/ldap\<close>.
\<close>

definition recording_handler :: "int \<Rightarrow> string list PathHandler" where
  "recording_handler n = \<lparr>Order = n, PutPoliciesFromDir = (\<lambda>p w. (None, w @ [p]))\<rparr>"

definition abc_walker :: "string list ConfigWalker" where
  "abc_walker =
     \<lparr>HandlerMap = [(''C'', recording_handler 0), (''B'', recording_handler 2),
                    (''A'', recording_handler 1)],
      ConfigDir = ''cfg''\<rparr>"

definition abc_tree :: fsnode where
  "abc_tree = Dir [(''A'', Dir []), (''B'', Dir []), (''C'', Dir []), (''other'', Dir [])]"

definition nested_walker :: "string list ConfigWalker" where
  "nested_walker =
     \<lparr>HandlerMap = [(''auth'', recording_handler 0), (''auth/ldap'', recording_handler 0)],
      ConfigDir = ''cfg''\<rparr>"

definition nested_tree :: fsnode where
  "nested_tree = Dir [(''auth'', Dir [(''ldap'', Dir [])])]"

definition start_state :: "string list walker_state" where
  "start_state = \<lparr>Visited = {}, world = [], dispatched = []\<rparr>"

section \<open>Properties\<close>

subsection \<open>What the two prune loops do\<close>

text \<open>
  \<^verbatim>\<open>RemoveUndeclaredPolicies\<close> deletes, in the order of the live list, exactly the live names
  that are neither fixed nor configured, and returns them. \<^verbatim>\<open>DisableUnconfiguredAuths\<close>
  disables live mounts that are neither configured nor of type token, in the order of the
  range loop, up to the first call that fails.
\<close>

lemma RemoveUndeclaredPolicies_loop_result:
  "RemoveUndeclaredPolicies_loop V ls del sh = (del', sh') \<Longrightarrow>
     del' = del @ filter (\<lambda>n. \<not> fixedPolicies n \<and> n \<notin> set (configuredPolicyList sh)) ls \<and>
     trace sh' = trace sh @
       map CallDeletePolicy
         (filter (\<lambda>n. \<not> fixedPolicies n \<and> n \<notin> set (configuredPolicyList sh)) ls) \<and>
     configuredPolicyList sh' = configuredPolicyList sh \<and>
     livePolicyList sh' = livePolicyList sh"
proof (induction ls arbitrary: del sh)
  case Nil
  then show ?case by simp
next
  case (Cons n ls)
  show ?case
  proof (cases "fixedPolicies n \<or> n \<in> set (configuredPolicyList sh)")
    case True
    with Cons.prems have "RemoveUndeclaredPolicies_loop V ls del sh = (del', sh')"
      by (auto simp: Let_def split: if_splits)
    from Cons.IH [OF this] True show ?thesis by auto
  next
    case False
    obtain r c' where d: "DeletePolicy V n (client sh) = (r, c')"
      by (cases "DeletePolicy V n (client sh)")
    let ?sh = "sh\<lparr>client := c', trace := trace sh @ [CallDeletePolicy n]\<rparr>"
    from Cons.prems False d
    have "RemoveUndeclaredPolicies_loop V ls (del @ [n]) ?sh = (del', sh')"
      by (simp add: Let_def)
    from Cons.IH [OF this] False show ?thesis by simp
  qed
qed

lemma DisableUnconfiguredAuths_loop_result:
  "DisableUnconfiguredAuths_loop V ls sh = (r, sh') \<Longrightarrow>
     (\<exists>k. trace sh' = trace sh @
        map CallDisableAuth
          (take k (map fst (filter (\<lambda>(p, m). configuredAuthMap sh p = None \<and>
                                     mount_Type m \<noteq> ''token'') ls))) \<and>
        (r = None \<longrightarrow>
           length (filter (\<lambda>(p, m). configuredAuthMap sh p = None \<and>
                                     mount_Type m \<noteq> ''token'') ls) \<le> k)) \<and>
     configuredAuthMap sh' = configuredAuthMap sh \<and> liveAuthMap sh' = liveAuthMap sh"
proof (induction ls arbitrary: sh)
  case Nil
  then show ?case by simp
next
  case (Cons pm ls)
  obtain p m where pm: "pm = (p, m)" by (cases pm)
  let ?P = "\<lambda>sh. (\<lambda>(p, m). configuredAuthMap sh p = None \<and> mount_Type m \<noteq> ''token'')"
  show ?case
  proof (cases "configuredAuthMap sh p \<noteq> None \<or> mount_Type m = ''token''")
    case True
    with Cons.prems pm have "DisableUnconfiguredAuths_loop V ls sh = (r, sh')"
      by (auto split: if_splits)
    from Cons.IH [OF this] True pm show ?thesis by auto
  next
    case False
    obtain e c' where d: "DisableAuth V p (client sh) = (e, c')"
      by (cases "DisableAuth V p (client sh)")
    let ?sh = "sh\<lparr>client := c', trace := trace sh @ [CallDisableAuth p]\<rparr>"
    show ?thesis
    proof (cases e)
      case None
      with Cons.prems False d pm
      have run: "DisableUnconfiguredAuths_loop V ls ?sh = (r, sh')"
        by (simp add: Let_def)
      from Cons.IH [OF run] obtain k where
        k: "trace sh' = trace ?sh @ map CallDisableAuth (take k (map fst (filter (?P ?sh) ls)))"
           "r = None \<longrightarrow> length (filter (?P ?sh) ls) \<le> k"
        and rest: "configuredAuthMap sh' = configuredAuthMap ?sh" "liveAuthMap sh' = liveAuthMap ?sh"
        by blast
      have "trace sh' = trace sh @ map CallDisableAuth (take (Suc k) (map fst (filter (?P sh) (pm # ls))))"
        using k(1) False pm by simp
      moreover have "r = None \<longrightarrow> length (filter (?P sh) (pm # ls)) \<le> Suc k"
        using k(2) False pm by simp
      ultimately show ?thesis using rest by (intro conjI exI [of _ "Suc k"]) simp_all
    next
      case (Some err)
      with Cons.prems False d pm
      have r: "r \<noteq> None" and sh': "sh' = ?sh" by (auto simp: Let_def)
      have f: "filter (?P sh) (pm # ls) = pm # filter (?P sh) ls"
        using False pm by simp
      have t: "trace sh' = trace sh @ map CallDisableAuth (take 1 (map fst (filter (?P sh) (pm # ls))))"
        unfolding f sh' using pm by simp
      show ?thesis
      proof (intro conjI exI [of _ 1])
        show "trace sh' = trace sh @ map CallDisableAuth (take 1 (map fst (filter (?P sh) (pm # ls))))"
          by (rule t)
        show "r = None \<longrightarrow> length (filter (?P sh) (pm # ls)) \<le> 1"
          using r by blast
        show "configuredAuthMap sh' = configuredAuthMap sh" "liveAuthMap sh' = liveAuthMap sh"
          using sh' by simp_all
      qed
    qed
  qed
qed

subsection \<open>C4: failures of the remote calls\<close>

text \<open>
  Claim C4 says that every failure of a remote call during ensure or prune is propagated to
  the caller. On a service that refuses every call, \<^verbatim>\<open>RemoveUndeclaredPolicies\<close> still
  returns the name as deleted and a nil error although \<^verbatim>\<open>DeletePolicy\<close> failed, and
  \<^verbatim>\<open>isPolicyApplied\<close> answers "not applied" with a nil error although \<^verbatim>\<open>GetPolicy\<close>
  failed, so that \<^verbatim>\<open>EnsurePolicy\<close> goes on to \<^verbatim>\<open>PutPolicy\<close>. The sibling
  \<^verbatim>\<open>DisableUnconfiguredAuths\<close> does return the failure of \<^verbatim>\<open>DisableAuth\<close>.
\<close>

theorem C4_policy_failures_dropped:
  "fst (DeletePolicy denying_Vault ''legacy'' (client legacy_handler)) = Some ''permission denied'' \<and>
   fst (RemoveUndeclaredPolicies denying_Vault legacy_handler) = ([''legacy''], None) \<and>
   fst (GetPolicy denying_Vault ''legacy'' (client legacy_handler)) = Inl ''permission denied'' \<and>
   fst (isPolicyApplied denying_Vault \<lparr>Name = ''legacy'', Policy = ''p''\<rparr> legacy_handler) =
     (False, None) \<and>
   trace (snd (EnsurePolicy denying_Vault \<lparr>Name = ''legacy'', Policy = ''p''\<rparr> legacy_handler)) =
     [CallGetPolicy ''legacy'', CallPutPolicy ''legacy'' ''p'']"
  by (simp add: denying_Vault_def legacy_handler_def RemoveUndeclaredPolicies_def fixedPolicies_def
      isPolicyApplied_def policyExists_def EnsurePolicy_def Let_def)

subsection \<open>The events of the walk\<close>

text \<open>
  Every call of a handler's \<^verbatim>\<open>walkFile\<close> adds its \<open>Visit\<close> and then only events of the
  ensure phase; so the walk adds no removing call and no \<open>Prune\<close>, and a walk that returns
  no error has visited every path \<^verbatim>\<open>Walk\<close> calls it with, in order.
\<close>

lemma visits_simps [simp]:
  "visits [] = []"
  "visits (Visit p # evs) = p # visits evs"
  "visits (Prune # evs) = visits evs"
  "visits (CallGetPolicy n # evs) = visits evs"
  "visits (CallPutPolicy n b # evs) = visits evs"
  "visits (CallEnableAuth q opts # evs) = visits evs"
  "visits (CallDisableAuth q # evs) = visits evs"
  "visits (CallDeletePolicy n # evs) = visits evs"
  by (simp_all add: visits_def List.map_filter_simps)

lemma visits_append [simp]: "visits (xs @ ys) = visits xs @ visits ys"
  by (simp add: visits_def List.map_filter_def)

lemma visits_map_CallDeletePolicy [simp]: "visits (map CallDeletePolicy ns) = []"
  by (induction ns) simp_all

lemma visits_map_CallDisableAuth [simp]: "visits (map CallDisableAuth ns) = []"
  by (induction ns) simp_all







lemma new_events_append [simp]: "new_events xs (xs @ ys) = ys"
  by (simp add: new_events_def)

lemma DisableUnconfiguredAuths_result:
  assumes "DisableUnconfiguredAuths V sh = (r, sh')"
  shows "\<exists>k. new_events (trace sh) (trace sh') = Prune #
        map CallDisableAuth
          (take k (map fst (filter (\<lambda>(p, m). configuredAuthMap sh p = None \<and>
                                     mount_Type m \<noteq> ''token'') (liveAuthMap sh)))) \<and>
        (r = None \<longrightarrow>
           length (filter (\<lambda>(p, m). configuredAuthMap sh p = None \<and>
                                     mount_Type m \<noteq> ''token'') (liveAuthMap sh)) \<le> k)"
proof -
  let ?sh = "sh\<lparr>trace := trace sh @ [Prune]\<rparr>"
  from assms have "DisableUnconfiguredAuths_loop V (liveAuthMap sh) ?sh = (r, sh')"
    by (simp add: DisableUnconfiguredAuths_def)
  from DisableUnconfiguredAuths_loop_result [OF this] obtain k where
    k: "trace sh' = (trace sh @ [Prune]) @
        map CallDisableAuth
          (take k (map fst (filter (\<lambda>(p, m). configuredAuthMap sh p = None \<and>
                                     mount_Type m \<noteq> ''token'') (liveAuthMap sh))))"
       "r = None \<longrightarrow>
           length (filter (\<lambda>(p, m). configuredAuthMap sh p = None \<and>
                                     mount_Type m \<noteq> ''token'') (liveAuthMap sh)) \<le> k"
    by auto
  show ?thesis
  proof (intro exI [of _ k] conjI)
    show "new_events (trace sh) (trace sh') = Prune #
        map CallDisableAuth
          (take k (map fst (filter (\<lambda>(p, m). configuredAuthMap sh p = None \<and>
                                     mount_Type m \<noteq> ''token'') (liveAuthMap sh))))"
      unfolding k(1) by (simp add: new_events_def)
  qed (rule k(2))
qed

lemma RemoveUndeclaredPolicies_result:
  assumes "RemoveUndeclaredPolicies V sh = (dr, sh')"
  shows "dr = (filter (\<lambda>n. \<not> fixedPolicies n \<and> n \<notin> set (configuredPolicyList sh))
                 (livePolicyList sh), None) \<and>
         new_events (trace sh) (trace sh') =
           Prune # map CallDeletePolicy
             (filter (\<lambda>n. \<not> fixedPolicies n \<and> n \<notin> set (configuredPolicyList sh))
                (livePolicyList sh))"
proof -
  let ?sh = "sh\<lparr>trace := trace sh @ [Prune]\<rparr>"
  obtain del sh1 where l: "RemoveUndeclaredPolicies_loop V (livePolicyList sh) [] ?sh = (del, sh1)"
    by (cases "RemoveUndeclaredPolicies_loop V (livePolicyList sh) [] ?sh")
  with assms have "dr = (del, None)" "sh' = sh1"
    by (simp_all add: RemoveUndeclaredPolicies_def)
  with RemoveUndeclaredPolicies_loop_result [OF l] show ?thesis
    by simp
qed



subsection \<open>C1: protected identifiers are never pruned\<close>

text \<open>
  Claim C1. In every state of the handlers and on every client, \<^verbatim>\<open>DisableUnconfiguredAuths\<close>
  makes no \<^verbatim>\<open>DisableAuth\<close> call for the path of a live mount of type token, and
  \<^verbatim>\<open>RemoveUndeclaredPolicies\<close> makes no \<^verbatim>\<open>DeletePolicy\<close> call for the names root and
  default, whether or not they are configured. The live mounts are a Go map, so the paths
  of the association list are distinct.
\<close>

theorem C1_protected_never_pruned:
  fixes Va :: "'a Vault" and sa :: "'a SysAuth" and Vp :: "'b Vault" and sp :: "'b SysPolicyHandler"
  assumes "distinct (map fst (liveAuthMap sa))"
  shows "(\<forall>p m. map_of (liveAuthMap sa) p = Some m \<and> mount_Type m = ''token'' \<longrightarrow>
            CallDisableAuth p \<notin>
              set (new_events (trace sa) (trace (snd (DisableUnconfiguredAuths Va sa))))) \<and>
         CallDeletePolicy ''root'' \<notin>
           set (new_events (trace sp) (trace (snd (RemoveUndeclaredPolicies Vp sp)))) \<and>
         CallDeletePolicy ''default'' \<notin>
           set (new_events (trace sp) (trace (snd (RemoveUndeclaredPolicies Vp sp))))"
proof (intro conjI allI impI)
  fix p m
  assume pm: "map_of (liveAuthMap sa) p = Some m \<and> mount_Type m = ''token''"
  obtain r sa' where d: "DisableUnconfiguredAuths Va sa = (r, sa')"
    by (cases "DisableUnconfiguredAuths Va sa")
  from DisableUnconfiguredAuths_result [OF d] obtain k where
    k: "new_events (trace sa) (trace sa') = Prune #
        map CallDisableAuth
          (take k (map fst (filter (\<lambda>(p, m). configuredAuthMap sa p = None \<and>
                                     mount_Type m \<noteq> ''token'') (liveAuthMap sa))))"
    by blast
  show "CallDisableAuth p \<notin>
          set (new_events (trace sa) (trace (snd (DisableUnconfiguredAuths Va sa))))"
  proof
    assume "CallDisableAuth p \<in>
          set (new_events (trace sa) (trace (snd (DisableUnconfiguredAuths Va sa))))"
    with d k have "p \<in> set (take k (map fst (filter (\<lambda>(p, m). configuredAuthMap sa p = None \<and>
                                     mount_Type m \<noteq> ''token'') (liveAuthMap sa))))"
      by auto
    then have "p \<in> set (map fst (filter (\<lambda>(p, m). configuredAuthMap sa p = None \<and>
                                     mount_Type m \<noteq> ''token'') (liveAuthMap sa)))"
      by (rule in_set_takeD)
    then obtain m' where m': "(p, m') \<in> set (liveAuthMap sa)" "mount_Type m' \<noteq> ''token''"
      by auto
    from assms m'(1) have "map_of (liveAuthMap sa) p = Some m'"
      by simp
    with pm m'(2) show False by simp
  qed
next
  obtain dr sp' where d: "RemoveUndeclaredPolicies Vp sp = (dr, sp')"
    by (cases "RemoveUndeclaredPolicies Vp sp")
  from RemoveUndeclaredPolicies_result [OF d] d
  show "CallDeletePolicy ''root'' \<notin>
           set (new_events (trace sp) (trace (snd (RemoveUndeclaredPolicies Vp sp))))"
    and "CallDeletePolicy ''default'' \<notin>
           set (new_events (trace sp) (trace (snd (RemoveUndeclaredPolicies Vp sp))))"
    by (auto simp: fixedPolicies_def)
qed

theorem C1_protected_never_pruned_witness:
  "distinct (map fst (liveAuthMap live_auth_handler)) \<and>
   map_of (liveAuthMap live_auth_handler) ''token/'' = Some (mount_of_type ''token'') \<and>
   mount_Type (mount_of_type ''token'') = ''token'' \<and>
   new_events (trace live_auth_handler)
     (trace (snd (DisableUnconfiguredAuths store_Vault live_auth_handler))) =
     [Prune, CallDisableAuth ''ldap/''] \<and>
   CallDisableAuth ''token/'' \<notin>
     set (new_events (trace live_auth_handler)
            (trace (snd (DisableUnconfiguredAuths store_Vault live_auth_handler)))) \<and>
   new_events (trace live_policy_handler)
     (trace (snd (RemoveUndeclaredPolicies store_Vault live_policy_handler))) =
     [Prune, CallDeletePolicy ''legacy''] \<and>
   CallDeletePolicy ''root'' \<notin>
     set (new_events (trace live_policy_handler)
            (trace (snd (RemoveUndeclaredPolicies store_Vault live_policy_handler)))) \<and>
   CallDeletePolicy ''default'' \<notin>
     set (new_events (trace live_policy_handler)
            (trace (snd (RemoveUndeclaredPolicies store_Vault live_policy_handler))))"
  using C1_protected_never_pruned [where sa = live_auth_handler and Va = store_Vault
      and Vp = store_Vault and sp = live_policy_handler]
  by (simp add: live_auth_handler_def live_policy_handler_def live_store_def mount_of_type_def
      store_Vault_def DisableUnconfiguredAuths_def RemoveUndeclaredPolicies_def new_events_def
      fixedPolicies_def Let_def)





lemma ops_policy_walk:
  "fst (filepath_Walk ''cfg/sys/policy'' (tree_at ops_env ''cfg/sys/policy'')
          (SysPolicyHandler_walkFile store_Vault ops_env) live_policy_handler) = None"
  by (simp add: ops_env_def files_env_def live_policy_handler_def live_store_def store_Vault_def
      filepath_Walk_def SysPolicyHandler_walkFile_def
      EnsurePolicy_def isPolicyApplied_def policyExists_def
      Split_file_def Let_def)

lemma ops_auth_run:
  "SysAuth_PutPoliciesFromDir store_Vault ops_env ''cfg/sys/policy'' live_auth_handler =
     (Some ''found file without sys/auth prefix: sys/policy/ops'',
      live_auth_handler
        \<lparr>trace := [CallListAuth, Visit ''cfg/sys/policy'', Visit ''cfg/sys/policy/ops'']\<rparr>)"
  by (simp add: ops_env_def files_env_def live_auth_handler_def live_store_def store_Vault_def
      filepath_Walk_def SysAuth_walkFile_def SysAuth_PutPoliciesFromDir_def
      HasPrefix_def TrimPrefix_def Let_def)

lemma ops_auth_walk:
  "fst (filepath_Walk ''cfg/sys/policy'' (tree_at ops_env ''cfg/sys/policy'')
          (SysAuth_walkFile store_Vault ops_env) live_auth_handler) =
     Some ''found file without sys/auth prefix: sys/policy/ops''"
  by (simp add: ops_env_def files_env_def live_auth_handler_def live_store_def store_Vault_def
      filepath_Walk_def SysAuth_walkFile_def HasPrefix_def TrimPrefix_def Let_def)















subsection \<open>Concrete runs\<close>

text \<open>
  The definitions a concrete run unfolds; the handlers the constructors build on the live
  state; and the calls, events and failures of the runs used below.
\<close>

lemmas policy_run_eval =
  files_env_def live_policy_handler_def live_store_def store_Vault_def readonly_Vault_def
  filepath_Walk_def SysPolicyHandler_walkFile_def SysPolicyHandler_PutPoliciesFromDir_def
  EnsurePolicy_def isPolicyApplied_def policyExists_def RemoveUndeclaredPolicies_def
  Split_file_def fixedPolicies_def Let_def

lemmas auth_run_eval =
  files_env_def live_auth_handler_def live_store_def store_Vault_def readonly_Vault_def
  filepath_Walk_def SysAuth_walkFile_def SysAuth_PutPoliciesFromDir_def ensureAuth_def
  isConfigApplied_def DisableUnconfiguredAuths_def HasPrefix_def TrimPrefix_def
  mount_of_type_def Let_def

lemma New_live_policy_handler:
  "NewSysPolicyHandler store_Vault live_store = Inr live_policy_handler"
  "NewSysPolicyHandler readonly_Vault live_store = Inr live_policy_handler"
  by (simp_all add: NewSysPolicyHandler_def store_Vault_def readonly_Vault_def
      live_policy_handler_def)

lemma New_live_auth_handler:
  "NewSysAuthHandler store_Vault ''cfg'' live_store = Inr live_auth_handler"
  "NewSysAuthHandler readonly_Vault ''cfg'' live_store = Inr live_auth_handler"
  by (simp_all add: NewSysAuthHandler_def store_Vault_def readonly_Vault_def
      live_auth_handler_def)








subsection \<open>C5: prune runs once, and only after a complete walk\<close>




subsection \<open>Durations evaluated\<close>

text \<open>
  The definitions an evaluation of \<^verbatim>\<open>ParseDuration\<close> and \<^verbatim>\<open>Seconds\<close> unfolds, and three
  values: \<^verbatim>\<open>"1m10s"\<close> is 70 seconds, \<^verbatim>\<open>"soon"\<close> is not a duration.
\<close>

lemmas ParseDuration_eval =
  ParseDuration_def ParseDuration_loop.simps ParseDuration_term_def leadingInt_def
  leadingFraction_def isDigit_def unit_char_def unitMap_def invalid_duration_def quote_def Let_def

lemmas Seconds_eval =
  Seconds_def tdiv_def tmod_def trunc_def f64_def ilog2_def scale2_def round_half_even_def
  bits.simps Let_def

lemma ConvertAuthConfig_no_config: "ConvertAuthConfig no_config = Inr no_config_out"
  by (simp add: ConvertAuthConfig_def no_config_def no_config_out_def)

lemma ParseDuration_soon: "ParseDuration ''soon'' = Inl (''time: invalid duration '' @ quote ''soon'')"
  by (simp add: ParseDuration_eval)

lemma ParseDuration_1m10s: "ParseDuration ''1m10s'' = Inr 70000000000"
  by (simp add: ParseDuration_eval)

lemma Seconds_70: "trunc (Seconds 70000000000) = 70"
  by (simp add: Seconds_eval)

subsection \<open>C3: ensure\<close>

text \<open>
  Claim C3 says that for every declared resource ensure first adds it to the configured set
  and then either skips or makes exactly one create-or-update call. \<^verbatim>\<open>ensureAuth\<close>
  canonicalizes first and returns when that fails: for options whose default lease TTL is
  \<^verbatim>\<open>"soon"\<close>, on a path with no live mount, it returns the parse error, adds nothing to the
  configured map and makes no call.
\<close>

theorem C3_unparsable_ttl_counterexample:
  "NewSysAuthHandler store_Vault ''cfg'' live_store = Inr live_auth_handler \<and>
   map_of (liveAuthMap live_auth_handler) ''github/'' = None \<and>
   fst (ensureAuth store_Vault ''github/'' bad_ttl_opts live_auth_handler) =
     Some (''could not parse DefaultLeaseTTL value soon as seconds: '' @
           ''time: invalid duration '' @ quote ''soon'') \<and>
   configuredAuthMap (snd (ensureAuth store_Vault ''github/'' bad_ttl_opts live_auth_handler))
     ''github/'' = None \<and>
   new_events (trace live_auth_handler)
     (trace (snd (ensureAuth store_Vault ''github/'' bad_ttl_opts live_auth_handler))) = []"
proof (intro conjI)
  show "NewSysAuthHandler store_Vault ''cfg'' live_store = Inr live_auth_handler"
    by (rule New_live_auth_handler)
qed (simp_all add: ensureAuth_def ConvertAuthConfig_def bad_ttl_opts_def no_config_def
    ParseDuration_soon live_auth_handler_def live_store_def new_events_def)

text \<open>
  Claim C3 as amended, in every state and on every client.
  \<^verbatim>\<open>EnsurePolicy\<close> appends the name to the configured list, whatever happens next. If the
  name is not live it makes the one call \<^verbatim>\<open>PutPolicy\<close> and returns what that returns. If
  the name is live it reads the policy; when the text read equals the declared text it
  returns nil with no mutating call, and otherwise (also when the read fails) it makes the
  one call \<^verbatim>\<open>PutPolicy\<close> and returns what that returns.
  \<^verbatim>\<open>ensureAuth\<close>, when the declared configuration does not canonicalize, returns that error
  and leaves the handler as it was. When it canonicalizes, the mount is entered in the
  configured map under its path; if a live mount at the path has a configuration equal to
  the canonical one, it returns nil with no call at all, and otherwise it makes the one call
  \<^verbatim>\<open>EnableAuth\<close> and returns nil or that call's failure, wrapped.
\<close>

theorem C3_ensure:
  fixes Va :: "'a Vault" and sa :: "'a SysAuth" and Vp :: "'b Vault" and sp :: "'b SysPolicyHandler"
  shows
  "(let res = EnsurePolicy Vp policy sp;
        evs = new_events (trace sp) (trace (snd res));
        n = Name policy; b = Policy policy
    in configuredPolicyList (snd res) = configuredPolicyList sp @ [n] \<and>
       livePolicyList (snd res) = livePolicyList sp \<and>
       (if n \<notin> set (livePolicyList sp) then
          evs = [CallPutPolicy n b] \<and> fst res = fst (PutPolicy Vp n b (client sp))
        else
          (case GetPolicy Vp n (client sp) of
             (g, c1) \<Rightarrow>
               if g = Inr b then fst res = None \<and> evs = [CallGetPolicy n]
               else evs = [CallGetPolicy n, CallPutPolicy n b] \<and>
                    fst res = fst (PutPolicy Vp n b c1)))) \<and>
   (let res = ensureAuth Va path opts sa;
        evs = new_events (trace sa) (trace (snd res))
    in case ConvertAuthConfig (opts_Config opts) of
         Inl e \<Rightarrow> fst res = Some e \<and> snd res = sa
       | Inr cfg \<Rightarrow>
           configuredAuthMap (snd res) =
             (configuredAuthMap sa)(path \<mapsto>
                \<lparr>mount_Type = opts_Type opts, mount_Description = [], mount_Accessor = [],
                 mount_Config = cfg, mount_Local = False\<rparr>) \<and>
           liveAuthMap (snd res) = liveAuthMap sa \<and>
           (if \<exists>m. map_of (liveAuthMap sa) path = Some m \<and> mount_Config m = cfg
            then fst res = None \<and> evs = []
            else evs = [CallEnableAuth path opts] \<and>
                 fst res =
                   (case fst (EnableAuth Va path opts (client sa)) of
                      None \<Rightarrow> None
                    | Some err \<Rightarrow> Some (''could not enable auth '' @ path @ '': '' @ err))))"
  (is "?P \<and> ?A")
proof
  obtain g c1 where g: "GetPolicy Vp (Name policy) (client sp) = (g, c1)"
    by (cases "GetPolicy Vp (Name policy) (client sp)")
  obtain q c2 where q: "PutPolicy Vp (Name policy) (Policy policy) (client sp) = (q, c2)"
    by (cases "PutPolicy Vp (Name policy) (Policy policy) (client sp)")
  obtain q' c3 where q': "PutPolicy Vp (Name policy) (Policy policy) c1 = (q', c3)"
    by (cases "PutPolicy Vp (Name policy) (Policy policy) c1")
  show ?P
    using g q q'
    by (cases g)
      (auto simp: EnsurePolicy_def isPolicyApplied_def policyExists_def Let_def new_events_def)
next
  obtain e c4 where e: "EnableAuth Va path opts (client sa) = (e, c4)"
    by (cases "EnableAuth Va path opts (client sa)")
  show ?A
    using e
    by (cases e)
      (auto simp: ensureAuth_def isConfigApplied_def Let_def new_events_def
        split: sum.splits option.splits)
qed

theorem C3_ensure_witness:
  "''legacy'' \<in> set (livePolicyList live_policy_handler) \<and>
   GetPolicy store_Vault ''legacy'' (client live_policy_handler) = (Inr ''l'', live_store) \<and>
   fst (EnsurePolicy store_Vault \<lparr>Name = ''legacy'', Policy = ''l''\<rparr> live_policy_handler) = None \<and>
   new_events (trace live_policy_handler)
     (trace (snd (EnsurePolicy store_Vault \<lparr>Name = ''legacy'', Policy = ''l''\<rparr>
                    live_policy_handler))) = [CallGetPolicy ''legacy''] \<and>
   configuredPolicyList
     (snd (EnsurePolicy store_Vault \<lparr>Name = ''legacy'', Policy = ''l''\<rparr> live_policy_handler)) =
     [''legacy''] \<and>
   ConvertAuthConfig (opts_Config ldap_opts) = Inr no_config_out \<and>
   map_of (liveAuthMap live_auth_handler) ''github/'' = None \<and>
   new_events (trace live_auth_handler)
     (trace (snd (ensureAuth store_Vault ''github/'' ldap_opts live_auth_handler))) =
     [CallEnableAuth ''github/'' ldap_opts] \<and>
   fst (ensureAuth store_Vault ''github/'' ldap_opts live_auth_handler) = None \<and>
   configuredAuthMap (snd (ensureAuth store_Vault ''github/'' ldap_opts live_auth_handler))
     ''github/'' = Some (mount_of_type ''ldap'')"
proof -
  have a: "''legacy'' \<in> set (livePolicyList live_policy_handler)"
    by (simp add: live_policy_handler_def live_store_def)
  have b: "GetPolicy store_Vault ''legacy'' (client live_policy_handler) = (Inr ''l'', live_store)"
    by (simp add: live_policy_handler_def live_store_def store_Vault_def)
  have c: "ConvertAuthConfig (opts_Config ldap_opts) = Inr no_config_out"
    by (simp add: ldap_opts_def ConvertAuthConfig_no_config)
  have d: "map_of (liveAuthMap live_auth_handler) ''github/'' = None"
    by (simp add: live_auth_handler_def live_store_def)
  have e: "configuredPolicyList live_policy_handler = []"
    by (simp add: live_policy_handler_def)
  have f: "configuredAuthMap live_auth_handler = Map.empty"
    by (simp add: live_auth_handler_def)
  have g: "opts_Type ldap_opts = ''ldap''"
    by (simp add: ldap_opts_def)
  have h: "fst (EnableAuth store_Vault ''github/'' ldap_opts (client live_auth_handler)) = None"
    by (simp add: store_Vault_def c)
  from C3_ensure [where Vp = store_Vault and sp = live_policy_handler
      and policy = "\<lparr>Name = ''legacy'', Policy = ''l''\<rparr>" and Va = store_Vault
      and sa = live_auth_handler and path = "''github/''" and opts = ldap_opts]
  show ?thesis
    using a b c d h by (simp add: Let_def e f g mount_of_type_def)
qed

subsection \<open>C8: ConvertAuthConfig\<close>

text \<open>
  Claim C8. \<^verbatim>\<open>ConvertAuthConfig\<close> maps the default lease TTL \<^verbatim>\<open>"1m10s"\<close> to 70 (and so the
  maximum lease TTL, as the repository's tests have it). Whenever it returns a
  configuration, an empty duration field has become 0, a non-empty one the whole seconds
  \<^verbatim>\<open>int(dur.Seconds())\<close> of the duration parsed, and the five other fields are copied. It
  returns an error exactly when one of the two duration fields is not empty and
  \<^verbatim>\<open>time.ParseDuration\<close> rejects it.
\<close>

theorem C8_ConvertAuthConfig:
  "ConvertAuthConfig (no_config\<lparr>DefaultLeaseTTL_in := ''1m10s''\<rparr>) =
     Inr (no_config_out\<lparr>DefaultLeaseTTL_out := 70\<rparr>) \<and>
   ConvertAuthConfig (no_config\<lparr>MaxLeaseTTL_in := ''1m10s''\<rparr>) =
     Inr (no_config_out\<lparr>MaxLeaseTTL_out := 70\<rparr>) \<and>
   (\<forall>out. ConvertAuthConfig input = Inr out \<longrightarrow>
      (DefaultLeaseTTL_in input = [] \<longrightarrow> DefaultLeaseTTL_out out = 0) \<and>
      (MaxLeaseTTL_in input = [] \<longrightarrow> MaxLeaseTTL_out out = 0) \<and>
      (\<forall>d. DefaultLeaseTTL_in input \<noteq> [] \<and> ParseDuration (DefaultLeaseTTL_in input) = Inr d \<longrightarrow>
           DefaultLeaseTTL_out out = trunc (Seconds d)) \<and>
      (\<forall>d. MaxLeaseTTL_in input \<noteq> [] \<and> ParseDuration (MaxLeaseTTL_in input) = Inr d \<longrightarrow>
           MaxLeaseTTL_out out = trunc (Seconds d)) \<and>
      PluginName_out out = PluginName_in input \<and>
      AuditNonHMACRequestKeys_out out = AuditNonHMACRequestKeys_in input \<and>
      AuditNonHMACResponseKeys_out out = AuditNonHMACResponseKeys_in input \<and>
      ListingVisibility_out out = ListingVisibility_in input \<and>
      PassthroughRequestHeaders_out out = PassthroughRequestHeaders_in input) \<and>
   ((\<exists>e. ConvertAuthConfig input = Inl e) \<longleftrightarrow>
      (DefaultLeaseTTL_in input \<noteq> [] \<and> (\<exists>e. ParseDuration (DefaultLeaseTTL_in input) = Inl e)) \<or>
      (MaxLeaseTTL_in input \<noteq> [] \<and> (\<exists>e. ParseDuration (MaxLeaseTTL_in input) = Inl e)))"
proof (intro conjI)
  show "ConvertAuthConfig (no_config\<lparr>DefaultLeaseTTL_in := ''1m10s''\<rparr>) =
     Inr (no_config_out\<lparr>DefaultLeaseTTL_out := 70\<rparr>)"
    by (simp add: ConvertAuthConfig_def no_config_def no_config_out_def ParseDuration_1m10s Seconds_70)
  show "ConvertAuthConfig (no_config\<lparr>MaxLeaseTTL_in := ''1m10s''\<rparr>) =
     Inr (no_config_out\<lparr>MaxLeaseTTL_out := 70\<rparr>)"
    by (simp add: ConvertAuthConfig_def no_config_def no_config_out_def ParseDuration_1m10s Seconds_70)
  show "\<forall>out. ConvertAuthConfig input = Inr out \<longrightarrow>
      (DefaultLeaseTTL_in input = [] \<longrightarrow> DefaultLeaseTTL_out out = 0) \<and>
      (MaxLeaseTTL_in input = [] \<longrightarrow> MaxLeaseTTL_out out = 0) \<and>
      (\<forall>d. DefaultLeaseTTL_in input \<noteq> [] \<and> ParseDuration (DefaultLeaseTTL_in input) = Inr d \<longrightarrow>
           DefaultLeaseTTL_out out = trunc (Seconds d)) \<and>
      (\<forall>d. MaxLeaseTTL_in input \<noteq> [] \<and> ParseDuration (MaxLeaseTTL_in input) = Inr d \<longrightarrow>
           MaxLeaseTTL_out out = trunc (Seconds d)) \<and>
      PluginName_out out = PluginName_in input \<and>
      AuditNonHMACRequestKeys_out out = AuditNonHMACRequestKeys_in input \<and>
      AuditNonHMACResponseKeys_out out = AuditNonHMACResponseKeys_in input \<and>
      ListingVisibility_out out = ListingVisibility_in input \<and>
      PassthroughRequestHeaders_out out = PassthroughRequestHeaders_in input"
    by (auto simp: ConvertAuthConfig_def split: if_splits sum.splits)
  show "(\<exists>e. ConvertAuthConfig input = Inl e) \<longleftrightarrow>
      (DefaultLeaseTTL_in input \<noteq> [] \<and> (\<exists>e. ParseDuration (DefaultLeaseTTL_in input) = Inl e)) \<or>
      (MaxLeaseTTL_in input \<noteq> [] \<and> (\<exists>e. ParseDuration (MaxLeaseTTL_in input) = Inl e))"
    by (auto simp: ConvertAuthConfig_def split: if_splits sum.splits)
qed

theorem C8_ConvertAuthConfig_witness:
  "ConvertAuthConfig no_config = Inr no_config_out \<and>
   DefaultLeaseTTL_in no_config = [] \<and> DefaultLeaseTTL_out no_config_out = 0 \<and>
   MaxLeaseTTL_in no_config = [] \<and> MaxLeaseTTL_out no_config_out = 0 \<and>
   DefaultLeaseTTL_in (no_config\<lparr>DefaultLeaseTTL_in := ''soon''\<rparr>) \<noteq> [] \<and>
   (\<exists>e. ParseDuration (DefaultLeaseTTL_in (no_config\<lparr>DefaultLeaseTTL_in := ''soon''\<rparr>)) = Inl e) \<and>
   (\<exists>e. ConvertAuthConfig (no_config\<lparr>DefaultLeaseTTL_in := ''soon''\<rparr>) = Inl e)"
proof -
  have e1: "DefaultLeaseTTL_in no_config = []" and e2: "MaxLeaseTTL_in no_config = []"
    by (simp_all add: no_config_def)
  note zero = C8_ConvertAuthConfig [of no_config, THEN conjunct2, THEN conjunct2, THEN conjunct1,
      rule_format, OF ConvertAuthConfig_no_config]
  from zero e1 e2 have z: "DefaultLeaseTTL_out no_config_out = 0" "MaxLeaseTTL_out no_config_out = 0"
    by blast+
  have n: "DefaultLeaseTTL_in (no_config\<lparr>DefaultLeaseTTL_in := ''soon''\<rparr>) \<noteq> []"
    by simp
  have p: "\<exists>e. ParseDuration (DefaultLeaseTTL_in (no_config\<lparr>DefaultLeaseTTL_in := ''soon''\<rparr>)) = Inl e"
    by (simp add: ParseDuration_soon)
  note fails = C8_ConvertAuthConfig [of "no_config\<lparr>DefaultLeaseTTL_in := ''soon''\<rparr>",
      THEN conjunct2, THEN conjunct2, THEN conjunct2]
  from fails n p have f: "\<exists>e. ConvertAuthConfig (no_config\<lparr>DefaultLeaseTTL_in := ''soon''\<rparr>) = Inl e"
    by blast
  from ConvertAuthConfig_no_config e1 e2 z n p f show ?thesis by blast
qed

subsection \<open>C9: files whose name starts with an underscore\<close>

text \<open>
  Claim C9 says that a file whose base name starts with an underscore is never treated as
  a declared resource. Neither \<^verbatim>\<open>walkFile\<close> looks at the name: in a policy directory that
  holds only \<^verbatim>\<open>_params.json\<close> the file is read, parsed and ensured, the policy
  \<^verbatim>\<open>_params.json\<close> is put and counted as configured; in an auth directory the mount
  \<^verbatim>\<open>_params.json/\<close> is enabled. The handlers are the ones the constructors build.
\<close>

theorem C9_underscore_files_are_applied:
  "NewSysPolicyHandler store_Vault live_store = Inr live_policy_handler \<and>
   NewSysAuthHandler store_Vault ''cfg'' live_store = Inr live_auth_handler \<and>
   walk_calls ''cfg/sys/policy'' (tree_at underscore_policy_env ''cfg/sys/policy'') =
     [(''cfg/sys/policy'', Some True, None),
      (''cfg/sys/policy/_params.json'', Some False, None)] \<and>
   Split_file ''cfg/sys/policy/_params.json'' = ''_params.json'' \<and>
   trace (snd (SysPolicyHandler_PutPoliciesFromDir store_Vault underscore_policy_env
                 ''cfg/sys/policy'' live_policy_handler)) =
     [CallListPolicies, Visit ''cfg/sys/policy'', Visit ''cfg/sys/policy/_params.json'',
      CallPutPolicy ''_params.json'' ''x'', Prune, CallDeletePolicy ''legacy''] \<and>
   configuredPolicyList (snd (SysPolicyHandler_PutPoliciesFromDir store_Vault underscore_policy_env
                 ''cfg/sys/policy'' live_policy_handler)) = [''_params.json''] \<and>
   trace (snd (SysAuth_PutPoliciesFromDir store_Vault underscore_auth_env
                 ''cfg/sys/auth'' live_auth_handler)) =
     [CallListAuth, Visit ''cfg/sys/auth'', Visit ''cfg/sys/auth/_params.json'',
      CallEnableAuth ''_params.json/''
        \<lparr>opts_Type = ''ldap'', opts_Description = [], opts_Config = no_config,
         opts_Local = False\<rparr>,
      Prune, CallDisableAuth ''ldap/''] \<and>
   configuredAuthMap (snd (SysAuth_PutPoliciesFromDir store_Vault underscore_auth_env
                 ''cfg/sys/auth'' live_auth_handler)) ''_params.json/'' =
     Some (mount_of_type ''ldap'')"
proof (intro conjI)
  show "NewSysPolicyHandler store_Vault live_store = Inr live_policy_handler"
    by (rule New_live_policy_handler)
  show "NewSysAuthHandler store_Vault ''cfg'' live_store = Inr live_auth_handler"
    by (rule New_live_auth_handler)
qed (simp_all add: underscore_policy_env_def underscore_auth_env_def policy_run_eval
    auth_run_eval ConvertAuthConfig_no_config no_config_out_def)

subsection \<open>C10: a path that does not exist\<close>




end
